theory Spec2Isabelle
  imports Main
begin

section \<open>The values an Option can meet\<close>

text \<open>
  The library is dynamically typed at run time (its arguments are \<open>any\<close>), so the
  embedding starts from a datatype of JavaScript values. The type parameter \<open>'s\<close>
  is the state of the surrounding program: caller-supplied functions may read and change
  it, and may throw.

  \<^item> \<open>VNum\<close> carries the integral numbers, \<open>VNaN\<close> the falsy not-a-number.
  \<^item> \<open>VObj\<close> is a plain object, given by its own properties.
  \<^item> \<open>VFun\<close> is a caller-made function object: its own properties and what a call
    with no argument does.
  \<^item> \<open>VSome v\<close> is the function object built by \<open>Some(value)\<close>, \<open>VNone\<close> the one
    object built by \<open>makeNone()\<close> and bound to the constant \<open>None\<close>.

  Objects are compared by structure: two \<open>VSome\<close> of the same value are not told apart.
  \<open>None\<close> is created once, at module load, so the single constructor \<open>VNone\<close> is that
  object. Getters, proxies and changed built-in prototypes are not part of the model.
\<close>

datatype error = TypeError | Thrown string

datatype 's val =
    VUndefined
  | VNull
  | VBool bool
  | VNum int
  | VNaN
  | VStr string
  | VArr "'s val list"
  | VObj "(string \<times> 's val) list"
  | VFun "(string \<times> 's val) list" "'s \<Rightarrow> (error + 's val) \<times> 's"
  | VSome "'s val"
  | VNone

type_synonym 's outcome = "(error + 's val) \<times> 's"

type_synonym 's callback = "'s val \<Rightarrow> 's \<Rightarrow> 's outcome"

type_synonym 's thunk = "'s \<Rightarrow> 's outcome"

subsection \<open>The language's own operations\<close>

text \<open>\<open>isDef\<close>: \<open>value !== null && value !== undefined\<close>.\<close>

fun isDef :: "'s val \<Rightarrow> bool" where
  "isDef VNull = False"
| "isDef VUndefined = False"
| "isDef _ = True"

text \<open>What \<open>if (v)\<close>, \<open>v && ...\<close> and \<open>v ? a : b\<close> test.\<close>

fun truthy :: "'s val \<Rightarrow> bool" where
  "truthy VUndefined = False"
| "truthy VNull = False"
| "truthy (VBool b) = b"
| "truthy (VNum n) = (n \<noteq> 0)"
| "truthy VNaN = False"
| "truthy (VStr s) = (s \<noteq> [])"
| "truthy _ = True"

text \<open>
  The property read \<open>v[k]\<close>. The source reads \<open>_isSome\<close>, \<open>_isNone\<close>,
  \<open>_isLiftWrapper\<close> and \<open>value\<close> from the values it is handed, and only from
  truthy ones (\<open>value && ...\<close>), where a read cannot throw; a missing property reads
  as \<open>undefined\<close>. \<open>Some(value)\<close> sets \<open>self.value = value\<close> and
  \<open>self._isSome = self\<close>; \<open>makeNone\<close> sets \<open>self._isNone = self\<close>. The other
  properties of an Option are its methods (\<open>ownKeys\<close> below lists them): they are
  functions of the library, not values of this model, and \<open>getProp\<close> is not meant for
  their keys.
\<close>

definition lookup :: "(string \<times> 's val) list \<Rightarrow> string \<Rightarrow> 's val" where
  "lookup ps k = (case map_of ps k of Some v \<Rightarrow> v | None \<Rightarrow> VUndefined)"

fun getProp :: "'s val \<Rightarrow> string \<Rightarrow> 's val" where
  "getProp (VObj ps) k = lookup ps k"
| "getProp (VFun ps f) k = lookup ps k"
| "getProp (VSome v) k =
     (if k = ''value'' then v else if k = ''_isSome'' then VSome v else VUndefined)"
| "getProp VNone k = (if k = ''_isNone'' then VNone else VUndefined)"
| "getProp _ k = VUndefined"

text \<open>
  The call \<open>v()\<close>. \<open>Some(value)\<close> is \<open>() => value\<close>, \<open>None\<close> is
  \<open>() => undefined\<close>; calling what is not a function raises a TypeError.
\<close>

fun call :: "'s val \<Rightarrow> 's thunk" where
  "call (VFun ps f) s = f s"
| "call (VSome v) s = (Inr v, s)"
| "call VNone s = (Inr VUndefined, s)"
| "call _ s = (Inl TypeError, s)"

section \<open>The constructor\<close>

text \<open>\<open>OptionObject\<close>: \<open>isDef(value) ? Some(value) : None\<close>.\<close>

definition Option :: "'s val \<Rightarrow> 's val" where
  "Option v = (if isDef v then VSome v else VNone)"

section \<open>The methods\<close>

text \<open>
  A caller-supplied function takes the state and returns its result, or the error it
  threw, with the new state. \<open>andThen\<close> runs the rest of a method body after such a
  call: an error ends the body there and reaches the caller as it is (the source has no
  \<open>try\<close>).
\<close>

definition andThen :: "'s outcome \<Rightarrow> 's callback \<Rightarrow> 's outcome" where
  "andThen r k = (case r of (Inl e, s1) \<Rightarrow> (Inl e, s1) | (Inr v, s1) \<Rightarrow> k v s1)"

text \<open>
  The properties \<open>Some(value)\<close> and \<open>makeNone()\<close> give their objects: \<open>Some\<close> sets
  \<open>value\<close> and \<open>_isSome\<close> and copies every key of \<open>someProto\<close>; \<open>makeNone\<close>
  assigns its ten properties one by one.
\<close>

definition someProtoKeys :: "string list" where
  "someProtoKeys = [''isDefined'', ''map'', ''flatMap'', ''filter'', ''orElse'',
     ''getOrElse'', ''match'', ''toString'', ''toJSON'']"

fun ownKeys :: "'s val \<Rightarrow> string list" where
  "ownKeys (VSome v) = ''value'' # ''_isSome'' # someProtoKeys"
| "ownKeys VNone = [''isDefined'', ''_isNone'', ''map'', ''flatMap'', ''filter'', ''orElse'',
     ''getOrElse'', ''match'', ''toString'', ''toJSON'']"
| "ownKeys (VObj ps) = map fst ps"
| "ownKeys (VFun ps f) = map fst ps"
| "ownKeys _ = []"

text \<open>
  Each method is given for both receivers, \<open>someProto\<close>'s function for a \<open>VSome\<close> and
  \<open>makeNone\<close>'s for \<open>VNone\<close>. On a receiver that is no Option of this library the
  method does not exist, and the call is a TypeError in this model.
\<close>

fun isDefined :: "'s val \<Rightarrow> 's thunk" where
  "isDefined (VSome v) s = (Inr (VBool True), s)"
| "isDefined VNone s = (Inr (VBool False), s)"
| "isDefined _ s = (Inl TypeError, s)"

text \<open>
  \<open>someProto.map\<close>:
  \<^verbatim>\<open>let result = fn(this.value)
  if (result && result['_isLiftWrapper']) result = result.value()
  if (isDef(result)) return Some(result)
  else return None\<close>
\<close>

fun map_opt :: "'s val \<Rightarrow> 's callback \<Rightarrow> 's thunk" where
  "map_opt (VSome v) fn s =
     andThen (fn v s) (\<lambda>result s1.
       if truthy result \<and> truthy (getProp result ''_isLiftWrapper'')
       then andThen (call (getProp result ''value'') s1) (\<lambda>result' s2.
              (Inr (if isDef result' then VSome result' else VNone), s2))
       else (Inr (if isDef result then VSome result else VNone), s1))"
| "map_opt VNone fn s = (Inr VNone, s)"
| "map_opt _ fn s = (Inl TypeError, s)"

text \<open>\<open>someProto.flatMap\<close>: \<open>return fn(this.value)\<close>.\<close>

fun flatMap :: "'s val \<Rightarrow> 's callback \<Rightarrow> 's thunk" where
  "flatMap (VSome v) fn s = fn v s"
| "flatMap VNone fn s = (Inr VNone, s)"
| "flatMap _ fn s = (Inl TypeError, s)"

text \<open>\<open>someProto.filter\<close>: \<open>return fn(this.value) ? this : None\<close>.\<close>

fun filter_opt :: "'s val \<Rightarrow> 's callback \<Rightarrow> 's thunk" where
  "filter_opt (VSome v) fn s =
     andThen (fn v s) (\<lambda>keep s1. (Inr (if truthy keep then VSome v else VNone), s1))"
| "filter_opt VNone fn s = (Inr VNone, s)"
| "filter_opt _ fn s = (Inl TypeError, s)"

text \<open>
  \<open>someProto.orElse\<close> takes no parameter and returns \<open>this\<close>; \<open>None\<close>'s is
  \<open>(alt) => alt()\<close>.
\<close>

fun orElse :: "'s val \<Rightarrow> 's thunk \<Rightarrow> 's thunk" where
  "orElse (VSome v) alt s = (Inr (VSome v), s)"
| "orElse VNone alt s = alt s"
| "orElse _ alt s = (Inl TypeError, s)"

fun getOrElse :: "'s val \<Rightarrow> 's val \<Rightarrow> 's thunk" where
  "getOrElse (VSome v) alt s = (Inr v, s)"
| "getOrElse VNone alt s = (Inr alt, s)"
| "getOrElse _ alt s = (Inl TypeError, s)"

text \<open>\<open>match\<close>, with the two functions of the matcher.\<close>

fun match_opt :: "'s val \<Rightarrow> 's callback \<Rightarrow> 's thunk \<Rightarrow> 's thunk" where
  "match_opt (VSome v) matcherSome matcherNone s = matcherSome v s"
| "match_opt VNone matcherSome matcherNone s = matcherNone s"
| "match_opt _ matcherSome matcherNone s = (Inl TypeError, s)"

section \<open>Option.all\<close>

text \<open>
  The test of line 102, \<open>value && (value._isSome || value._isNone)\<close>, and the step it
  guards, \<open>value = value()\<close>.
\<close>

definition isTagged :: "'s val \<Rightarrow> bool" where
  "isTagged v = (truthy v \<and> (truthy (getProp v ''_isSome'') \<or> truthy (getProp v ''_isNone'')))"

definition unwrap :: "'s val \<Rightarrow> 's thunk" where
  "unwrap v s = (if isTagged v then call v s else (Inr v, s))"

text \<open>
  The loop over \<open>args\<close>, from the left: the arguments still to visit, the array
  \<open>values\<close> built so far, the state. \<open>break\<close> leaves with \<open>values\<close> as it is.
\<close>

fun all_loop :: "'s val list \<Rightarrow> 's val list \<Rightarrow> 's \<Rightarrow> (error + 's val list) \<times> 's" where
  "all_loop [] values s = (Inr values, s)"
| "all_loop (arg # args) values s =
     (case unwrap arg s of
        (Inl e, s1) \<Rightarrow> (Inl e, s1)
      | (Inr v, s1) \<Rightarrow>
          if \<not> isDef v then (Inr values, s1)
          else all_loop args (values @ [v]) s1)"

definition Option_all :: "'s val list \<Rightarrow> 's thunk" where
  "Option_all args s =
     (case all_loop args [] s of
        (Inl e, s1) \<Rightarrow> (Inl e, s1)
      | (Inr values, s1) \<Rightarrow>
          (Inr (if length values \<noteq> length args then VNone else Option (VArr values)), s1))"

section \<open>Notions used to state the properties\<close>

text \<open>
  A well-formed Option: the object \<open>None\<close>, or a \<open>Some\<close> whose value is neither
  \<open>null\<close> nor \<open>undefined\<close>.
\<close>

fun wellFormed :: "'s val \<Rightarrow> bool" where
  "wellFormed VNone = True"
| "wellFormed (VSome v) = isDef v"
| "wellFormed _ = False"

text \<open>A caller-supplied function that returns well-formed Options whenever it returns.\<close>

definition returnsOptions :: "'s callback \<Rightarrow> bool" where
  "returnsOptions fn = (\<forall>v s r s1. fn v s = (Inr r, s1) \<longrightarrow> wellFormed r)"

definition returnsOption :: "'s thunk \<Rightarrow> bool" where
  "returnsOption alt = (\<forall>s r s1. alt s = (Inr r, s1) \<longrightarrow> wellFormed r)"

text \<open>
  The Options the public operations hand out: the constructor's, those of \<open>map\<close>,
  \<open>filter\<close> and \<open>Option.all\<close>, and those of \<open>flatMap\<close> and \<open>orElse\<close> when the
  function they are given returns well-formed Options.
\<close>

inductive produced :: "'s val \<Rightarrow> bool" where
  by_Option: "produced (Option v)"
| by_map: "map_opt self fn s = (Inr r, s1) \<Longrightarrow> produced r"
| by_filter: "produced self \<Longrightarrow> filter_opt self fn s = (Inr r, s1) \<Longrightarrow> produced r"
| by_all: "Option_all args s = (Inr r, s1) \<Longrightarrow> produced r"
| by_flatMap: "produced self \<Longrightarrow> returnsOptions fn \<Longrightarrow> flatMap self fn s = (Inr r, s1)
     \<Longrightarrow> produced r"
| by_orElse: "produced self \<Longrightarrow> returnsOption alt \<Longrightarrow> orElse self alt s = (Inr r, s1)
     \<Longrightarrow> produced r"

text \<open>
  Unwrapping every input of \<open>Option.all\<close> in turn, from the left, with line 102's
  step: the sequence of unwrapped values the documentation speaks of.
\<close>

fun unwrapEach :: "'s val list \<Rightarrow> 's \<Rightarrow> (error + 's val list) \<times> 's" where
  "unwrapEach [] s = (Inr [], s)"
| "unwrapEach (arg # args) s =
     (case unwrap arg s of
        (Inl e, s1) \<Rightarrow> (Inl e, s1)
      | (Inr v, s1) \<Rightarrow>
          (case unwrapEach args s1 of
             (Inl e, s2) \<Rightarrow> (Inl e, s2)
           | (Inr vs, s2) \<Rightarrow> (Inr (v # vs), s2)))"

subsection \<open>Sample caller-supplied functions and objects\<close>

text \<open>\<open>_ => r\<close>, \<open>() => r\<close>, \<open>() => { throw msg }\<close> and \<open>v => Option(v)\<close>.\<close>

definition constFn :: "'s val \<Rightarrow> 's callback" where
  "constFn r = (\<lambda>v s. (Inr r, s))"

definition returning :: "'s val \<Rightarrow> 's thunk" where
  "returning r = (\<lambda>s. (Inr r, s))"

definition throwing :: "string \<Rightarrow> 's thunk" where
  "throwing msg = (\<lambda>s. (Inl (Thrown msg), s))"

definition toOption :: "'s callback" where
  "toOption = (\<lambda>v s. (Inr (Option v), s))"

text \<open>A function that counts its calls in the state: \<open>() => { n++; return r }\<close>.\<close>

definition counting :: "nat val \<Rightarrow> nat thunk" where
  "counting r = (\<lambda>n. (Inr r, Suc n))"

text \<open>
  An object of the exported interface \<open>Wrapper\<close>, which has \<open>value()\<close> and nothing
  else, and one that also carries the mark \<open>_isLiftWrapper\<close>.
\<close>

definition plainWrapper :: "'s val \<Rightarrow> 's val" where
  "plainWrapper r = VObj [(''value'', VFun [] (returning r))]"

definition liftWrapper :: "'s val \<Rightarrow> 's val" where
  "liftWrapper r = VObj [(''_isLiftWrapper'', VBool True), (''value'', VFun [] (returning r))]"

section \<open>Basic facts\<close>

lemma isDef_iff: "isDef v \<longleftrightarrow> v \<noteq> VNull \<and> v \<noteq> VUndefined"
  by (cases v) simp_all

lemma falsy_not_tagged: "\<not> truthy v \<Longrightarrow> unwrap v s = (Inr v, s)"
  by (simp add: unwrap_def isTagged_def)

text \<open>Unwrapping an Option of this library is its read, and never fails.\<close>

lemma unwrap_VSome: "unwrap (VSome v) s = (Inr v, s)"
  by (simp add: unwrap_def isTagged_def)

lemma unwrap_VNone: "unwrap VNone s = (Inr VUndefined, s)"
  by (simp add: unwrap_def isTagged_def)

text \<open>What each operation returns is well-formed.\<close>

lemma wellFormed_Option: "wellFormed (Option v)"
  by (simp add: Option_def)

lemma wellFormed_map: "map_opt self fn s = (Inr r, s1) \<Longrightarrow> wellFormed r"
  by (cases self) (auto simp: andThen_def split: sum.splits prod.splits if_splits)

lemma wellFormed_filter:
  "wellFormed self \<Longrightarrow> filter_opt self fn s = (Inr r, s1) \<Longrightarrow> wellFormed r"
  by (cases self) (auto simp: andThen_def split: sum.splits prod.splits if_splits)

lemma wellFormed_all: "Option_all args s = (Inr r, s1) \<Longrightarrow> wellFormed r"
  by (auto simp: Option_all_def Option_def split: sum.splits prod.splits if_splits)

lemma wellFormed_flatMap:
  "wellFormed self \<Longrightarrow> returnsOptions fn \<Longrightarrow> flatMap self fn s = (Inr r, s1) \<Longrightarrow> wellFormed r"
  by (cases self) (auto simp: returnsOptions_def)

lemma wellFormed_orElse:
  "wellFormed self \<Longrightarrow> returnsOption alt \<Longrightarrow> orElse self alt s = (Inr r, s1) \<Longrightarrow> wellFormed r"
  by (cases self) (auto simp: returnsOption_def)

text \<open>
  The loop of \<open>Option.all\<close> over a prefix whose inputs all unwrap to defined values:
  it appends them to \<open>values\<close> and goes on with the rest.
\<close>

lemma unwrapEach_length: "unwrapEach xs s = (Inr vs, s1) \<Longrightarrow> length vs = length xs"
  by (induction xs arbitrary: s vs) (auto split: sum.splits prod.splits)

lemma all_loop_present:
  "unwrapEach xs s = (Inr vs, s1) \<Longrightarrow> list_all isDef vs \<Longrightarrow>
     all_loop (xs @ ys) acc s = all_loop ys (acc @ vs) s1"
proof (induction xs arbitrary: s vs acc)
  case Nil
  then show ?case by simp
next
  case (Cons x xs)
  from Cons.prems(1) obtain v s' vs' where
    u: "unwrap x s = (Inr v, s')" and r: "unwrapEach xs s' = (Inr vs', s1)" and vs: "vs = v # vs'"
    by (auto split: sum.splits prod.splits)
  from Cons.prems(2) vs have d: "isDef v" and ds: "list_all isDef vs'" by simp_all
  from Cons.IH [OF r ds]
  have "all_loop (xs @ ys) (acc @ [v]) s' = all_loop ys ((acc @ [v]) @ vs') s1" .
  with u d vs show ?case by simp
qed

lemma unwrapEach_falsy:
  "list_all (\<lambda>v. \<not> truthy v) args \<Longrightarrow> unwrapEach args s = (Inr args, s)"
  by (induction args) (simp_all add: falsy_not_tagged)

section \<open>The constructor picks the variant by the null test\<close>

text \<open>
  C1. For every value \<open>v\<close>: if \<open>v\<close> is neither \<open>null\<close> nor \<open>undefined\<close>,
  \<open>Option(v)\<close> is a \<open>Some\<close> (\<open>isDefined()\<close> is true) and invoking it yields
  \<open>v\<close>; if \<open>v\<close> is \<open>null\<close> or \<open>undefined\<close>, \<open>Option(v)\<close> is the one object
  \<open>None\<close>, in both cases.
\<close>

theorem Option_constructor:
  "(v \<noteq> VNull \<and> v \<noteq> VUndefined \<longrightarrow>
      Option v = VSome v \<and> call (Option v) s = (Inr v, s)
      \<and> isDefined (Option v) s = (Inr (VBool True), s))
   \<and> (v = VNull \<or> v = VUndefined \<longrightarrow> Option v = VNone)"
  by (auto simp: Option_def isDef_iff)

theorem Option_constructor_witness:
  "Option (VNum 33) = VSome (VNum 33 :: unit val)
   \<and> call (Option (VNum 33)) () = (Inr (VNum 33), ())
   \<and> Option VNull = (VNone :: unit val)
   \<and> Option VUndefined = (VNone :: unit val)"
  using Option_constructor [of "VNum 33" "()"] Option_constructor [of VNull "()"]
    Option_constructor [of VUndefined "()"]
  by simp

section \<open>map\<close>

text \<open>
  C2, as stated, says that \<open>Some(x).map(fn)\<close> is \<open>Some(fn(x))\<close> whenever \<open>fn(x)\<close>
  is neither \<open>null\<close> nor \<open>undefined\<close>. It fails when \<open>fn\<close> returns an object
  marked \<open>_isLiftWrapper\<close>: the object is a defined value, yet \<open>map\<close> replaces it by
  what its \<open>value()\<close> returns, here \<open>null\<close>, and the result is \<open>None\<close>.
\<close>

theorem map_lift_wrapper_counterexample:
  "isDef (liftWrapper VNull :: unit val)
   \<and> constFn (liftWrapper VNull) (VNum 1) () = (Inr (liftWrapper VNull), ())
   \<and> map_opt (VSome (VNum 1)) (constFn (liftWrapper VNull)) () = (Inr VNone, ())
   \<and> map_opt (VSome (VNum 1)) (constFn (liftWrapper VNull)) ()
       \<noteq> (Inr (VSome (liftWrapper VNull)), ())"
  by (simp add: liftWrapper_def constFn_def returning_def andThen_def lookup_def)

text \<open>
  C2, amended. When \<open>fn(x)\<close> returns \<open>r\<close>: if \<open>r\<close> is neither \<open>null\<close> nor
  \<open>undefined\<close> and is not a truthy value with a truthy \<open>_isLiftWrapper\<close>,
  \<open>Some(x).map(fn)\<close> is \<open>Some(r)\<close>; if \<open>r\<close> is \<open>null\<close> or \<open>undefined\<close>, it is
  \<open>None\<close>. In particular \<open>Some(x).map(_ => null).isDefined()\<close> is false.
\<close>

theorem map_collapses:
  assumes "fn x s = (Inr r, s1)"
  shows "(isDef r \<and> \<not> (truthy r \<and> truthy (getProp r ''_isLiftWrapper'')) \<longrightarrow>
            map_opt (VSome x) fn s = (Inr (VSome r), s1))
       \<and> (r = VNull \<or> r = VUndefined \<longrightarrow> map_opt (VSome x) fn s = (Inr VNone, s1))
       \<and> andThen (map_opt (VSome x) (constFn VNull) s) isDefined = (Inr (VBool False), s)"
  using assms by (auto simp: andThen_def constFn_def)

theorem map_collapses_witness:
  "toOption (VNum 33) () = (Inr (VSome (VNum 33)), ())
   \<and> map_opt (VSome (VNum 33)) toOption () = (Inr (VSome (VSome (VNum 33))), ())
   \<and> constFn VUndefined (VNum 33) () = (Inr VUndefined, ())
   \<and> map_opt (VSome (VNum 33)) (constFn VUndefined) () = (Inr VNone, ())"
  using map_collapses [of toOption "VNum 33" "()" "VSome (VNum 33)" "()"]
    map_collapses [of "constFn VUndefined" "VNum 33" "()" VUndefined "()"]
  by (simp add: toOption_def Option_def constFn_def)

text \<open>
  C7, as stated, says that \<open>map\<close> unwraps any result that has the shape of the exported
  interface \<open>Wrapper\<close>, an object with a method \<open>value()\<close>. It fails for such an
  object without the mark \<open>_isLiftWrapper\<close>: its \<open>value()\<close> would return 5, but
  \<open>map\<close> does not invoke it and returns a \<open>Some\<close> of the object itself.
\<close>

theorem map_plain_wrapper_counterexample:
  "call (getProp (plainWrapper (VNum 5)) ''value'') () = (Inr (VNum 5), ())
   \<and> map_opt (VSome (VNum 1)) (constFn (plainWrapper (VNum 5))) ()
       = (Inr (VSome (plainWrapper (VNum 5))), ())
   \<and> plainWrapper (VNum 5) \<noteq> (VNum 5 :: unit val)"
  by (simp add: plainWrapper_def constFn_def returning_def andThen_def lookup_def)

text \<open>
  C7, amended. When \<open>fn(x)\<close> returns a truthy value \<open>r\<close> whose property
  \<open>_isLiftWrapper\<close> is truthy, and \<open>r.value()\<close> returns \<open>u\<close>, then
  \<open>Some(x).map(fn)\<close> has invoked \<open>r.value()\<close> and is \<open>Some(u)\<close> if \<open>u\<close> is neither
  \<open>null\<close> nor \<open>undefined\<close>, \<open>None\<close> otherwise.
\<close>

theorem map_unwraps_lift_wrapper:
  assumes "fn x s = (Inr r, s1)"
    and "truthy r" and "truthy (getProp r ''_isLiftWrapper'')"
    and "call (getProp r ''value'') s1 = (Inr u, s2)"
  shows "map_opt (VSome x) fn s = (Inr (if isDef u then VSome u else VNone), s2)"
  using assms by (simp add: andThen_def)

theorem map_unwraps_lift_wrapper_witness:
  "constFn (liftWrapper (VNum 5)) (VNum 1) () = (Inr (liftWrapper (VNum 5)), ())
   \<and> truthy (liftWrapper (VNum 5) :: unit val)
   \<and> truthy (getProp (liftWrapper (VNum 5) :: unit val) ''_isLiftWrapper'')
   \<and> call (getProp (liftWrapper (VNum 5)) ''value'') () = (Inr (VNum 5), ())
   \<and> map_opt (VSome (VNum 1)) (constFn (liftWrapper (VNum 5))) () = (Inr (VSome (VNum 5)), ())"
  using map_unwraps_lift_wrapper [of "constFn (liftWrapper (VNum 5))" "VNum 1" "()"
      "liftWrapper (VNum 5)" "()" "VNum 5" "()"]
  by (simp add: liftWrapper_def constFn_def returning_def lookup_def)

section \<open>The invariant of Some\<close>

text \<open>
  C3. Every Option the public operations produce (the constructor \<open>Option\<close>, \<open>map\<close>,
  \<open>filter\<close> and \<open>Option.all\<close>, and \<open>flatMap\<close> and \<open>orElse\<close> when the function they
  are given returns well-formed Options) is either the object \<open>None\<close> or a \<open>Some\<close>
  whose value is neither \<open>null\<close> nor \<open>undefined\<close>.
\<close>

theorem produced_wellFormed:
  assumes "produced opt"
  shows "opt = VNone \<or> (\<exists>v. opt = VSome v \<and> v \<noteq> VNull \<and> v \<noteq> VUndefined)"
proof -
  from assms have "wellFormed opt"
  proof (induction rule: produced.induct)
    case (by_Option v)
    show ?case by (rule wellFormed_Option)
  next
    case (by_map self fn s r s1)
    then show ?case by (rule wellFormed_map)
  next
    case (by_filter self fn s r s1)
    then show ?case by (blast intro: wellFormed_filter)
  next
    case (by_all args s r s1)
    then show ?case by (rule wellFormed_all)
  next
    case (by_flatMap self fn s r s1)
    then show ?case by (blast intro: wellFormed_flatMap)
  next
    case (by_orElse self alt s r s1)
    then show ?case by (blast intro: wellFormed_orElse)
  qed
  then show ?thesis
    by (cases opt) (simp_all add: isDef_iff)
qed

theorem produced_wellFormed_witness:
  "produced (VSome (VNum 33) :: unit val)
   \<and> filter_opt (Option (VNum 33)) (constFn (VBool True)) () = (Inr (VSome (VNum 33)), ())
   \<and> (\<exists>v. VSome (VNum 33) = VSome v \<and> v \<noteq> VNull \<and> v \<noteq> (VUndefined :: unit val))"
proof -
  have f: "filter_opt (Option (VNum 33)) (constFn (VBool True)) () = (Inr (VSome (VNum 33)), ())"
    by (simp add: Option_def constFn_def andThen_def)
  have p: "produced (VSome (VNum 33) :: unit val)"
    by (rule by_filter [OF by_Option f])
  from produced_wellFormed [OF p] f p show ?thesis by simp
qed

section \<open>Option.all\<close>

text \<open>
  C4. \<open>Option.all\<close> visits its inputs from the left. When the inputs \<open>before\<close> all
  unwrap to defined values and the next input \<open>a\<close> unwraps to \<open>null\<close> or
  \<open>undefined\<close> (it is \<open>None\<close>, \<open>null\<close> or \<open>undefined\<close>), the result is the object
  \<open>None\<close> and the state is the one reached right after unwrapping \<open>a\<close>, whatever
  the inputs \<open>rest\<close> that follow are: none of them is invoked.
\<close>

theorem all_short_circuit:
  assumes "unwrapEach before s = (Inr vs, s1)" and "list_all isDef vs"
    and "unwrap a s1 = (Inr v, s2)" and "v = VNull \<or> v = VUndefined"
  shows "Option_all (before @ a # rest) s = (Inr VNone, s2)"
proof -
  from assms(4) have nd: "\<not> isDef v" by auto
  have "all_loop (before @ a # rest) [] s = all_loop (a # rest) ([] @ vs) s1"
    by (rule all_loop_present [OF assms(1,2)])
  also have "\<dots> = (Inr vs, s2)"
    using assms(3) nd by simp
  finally have l: "all_loop (before @ a # rest) [] s = (Inr vs, s2)" .
  have "length vs = length before"
    by (rule unwrapEach_length [OF assms(1)])
  then have "length vs \<noteq> length (before @ a # rest)" by simp
  with l show ?thesis by (simp add: Option_all_def)
qed

text \<open>
  The third input below is a function marked \<open>_isSome\<close> that counts its calls: alone it
  would be invoked (the counter goes from 0 to 1), after \<open>None\<close> it is not (the counter
  stays 0).
\<close>

theorem all_short_circuit_witness:
  "unwrapEach [Option (VNum 10)] (0::nat) = (Inr [VNum 10], 0)
   \<and> unwrap VNone (0::nat) = (Inr VUndefined, 0)
   \<and> Option_all [Option (VNum 10), VNone,
         VFun [(''_isSome'', VBool True)] (counting (VNum 5)), VNull] 0
        = (Inr VNone, 0)
   \<and> unwrap (VFun [(''_isSome'', VBool True)] (counting (VNum 5))) 0 = (Inr (VNum 5), 1)"
proof -
  have a: "unwrapEach [Option (VNum 10)] (0::nat) = (Inr [VNum 10], 0)"
    by (simp add: Option_def unwrap_def isTagged_def)
  have b: "list_all isDef [VNum 10 :: nat val]" by simp
  have c: "unwrap VNone (0::nat) = (Inr VUndefined, 0)"
    by (simp add: unwrap_def isTagged_def)
  have d: "unwrap (VFun [(''_isSome'', VBool True)] (counting (VNum 5))) 0 = (Inr (VNum 5), 1)"
    by (simp add: unwrap_def isTagged_def lookup_def counting_def)
  from all_short_circuit [OF a b c,
      of "[VFun [(''_isSome'', VBool True)] (counting (VNum 5)), VNull]"] a c d
  show ?thesis by simp
qed

text \<open>
  C5. When every input of \<open>Option.all\<close>, unwrapped if it is an Option, is neither
  \<open>null\<close> nor \<open>undefined\<close>, the result is a \<open>Some\<close> of the array of the unwrapped
  values, as many as the inputs and in their order. With no input at all the result is
  \<open>Some([])\<close>.
\<close>

theorem all_present:
  "(unwrapEach args s = (Inr vs, s1) \<and> list_all isDef vs \<longrightarrow>
      Option_all args s = (Inr (VSome (VArr vs)), s1) \<and> length vs = length args)
   \<and> Option_all [] s = (Inr (VSome (VArr [])), s)"
proof (intro conjI impI)
  assume h: "unwrapEach args s = (Inr vs, s1) \<and> list_all isDef vs"
  then have u: "unwrapEach args s = (Inr vs, s1)" and d: "list_all isDef vs" by simp_all
  from all_loop_present [OF u d, where ys = "[]" and acc = "[]"]
  have l: "all_loop args [] s = (Inr vs, s1)"
    by simp
  show n: "length vs = length args" by (rule unwrapEach_length [OF u])
  from l n show "Option_all args s = (Inr (VSome (VArr vs)), s1)"
    by (simp add: Option_all_def Option_def)
next
  show "Option_all [] s = (Inr (VSome (VArr [])), s)"
    by (simp add: Option_all_def Option_def)
qed

theorem all_present_witness:
  "unwrapEach [Option (VNum 10), VNum 20, Option (VNum 5)] ()
     = (Inr [VNum 10, VNum 20, VNum 5], ())
   \<and> Option_all [Option (VNum 10), VNum 20, Option (VNum 5)] ()
       = (Inr (VSome (VArr [VNum 10, VNum 20, VNum 5])), ())"
proof -
  have u: "unwrapEach [Option (VNum 10), VNum 20, Option (VNum 5)] ()
             = (Inr [VNum 10, VNum 20, VNum 5], ())"
    by (simp add: Option_def unwrap_def isTagged_def)
  have d: "list_all isDef [VNum 10, VNum 20, VNum 5 :: unit val]" by simp
  from all_present [of "[Option (VNum 10), VNum 20, Option (VNum 5)]" "()"
      "[VNum 10, VNum 20, VNum 5]" "()"] u d
  show ?thesis by simp
qed

text \<open>
  C10. Presence is decided by the null test, not by truthiness. For every falsy value
  \<open>v\<close> other than \<open>null\<close> and \<open>undefined\<close> (0, NaN, the empty string, false),
  \<open>Option(v)\<close> is a \<open>Some\<close> whose read yields \<open>v\<close>, and \<open>Option.all\<close> of such
  inputs is a \<open>Some\<close> of the array of those very inputs:
  \<open>Option.all(0, '', false)\<close> is \<open>Some([0, '', false])\<close>.
\<close>

theorem falsy_values_present:
  "(v \<noteq> VNull \<and> v \<noteq> VUndefined \<and> \<not> truthy v \<longrightarrow>
      Option v = VSome v \<and> call (Option v) s = (Inr v, s))
   \<and> (list_all (\<lambda>a. a \<noteq> VNull \<and> a \<noteq> VUndefined \<and> \<not> truthy a) args \<longrightarrow>
        Option_all args s = (Inr (VSome (VArr args)), s))
   \<and> Option_all [VNum 0, VStr '''', VBool False] s
       = (Inr (VSome (VArr [VNum 0, VStr '''', VBool False])), s)"
proof -
  have all_falsy: "Option_all xs s = (Inr (VSome (VArr xs)), s)"
    if "list_all (\<lambda>a. a \<noteq> VNull \<and> a \<noteq> VUndefined \<and> \<not> truthy a) xs"
    for xs :: "'a val list"
  proof -
    from that have f: "list_all (\<lambda>v. \<not> truthy v) xs" and d: "list_all isDef xs"
      by (simp_all add: list_all_iff isDef_iff)
    from all_loop_present [OF unwrapEach_falsy [OF f] d, where ys = "[]" and acc = "[]"]
    show ?thesis by (simp add: Option_all_def Option_def)
  qed
  have "Option_all [VNum 0, VStr '''', VBool False] s
       = (Inr (VSome (VArr [VNum 0, VStr '''', VBool False])), s)"
    by (rule all_falsy) simp
  moreover have "v \<noteq> VNull \<and> v \<noteq> VUndefined \<and> \<not> truthy v \<longrightarrow>
      Option v = VSome v \<and> call (Option v) s = (Inr v, s)"
    by (simp add: Option_def isDef_iff)
  ultimately show ?thesis using all_falsy by blast
qed

theorem falsy_values_present_witness:
  "Option (VNum 0) = VSome (VNum 0 :: unit val)
   \<and> call (Option (VNum 0)) () = (Inr (VNum 0), ())
   \<and> Option_all [VNaN, VStr ''''] () = (Inr (VSome (VArr [VNaN, VStr ''''])), ())"
  using falsy_values_present [of "VNum 0" "()" "[VNaN, VStr '''']"]
  by simp

section \<open>forEach\<close>

text \<open>
  C6 asks for a method \<open>forEach\<close> that applies a procedure to the value of a \<open>Some\<close>
  and does nothing on \<open>None\<close>; the README documents it with
  \<open>Option(33).forEach(x => console.log(x))\<close>. Neither \<open>someProto\<close> nor \<open>makeNone\<close>
  defines it: \<open>forEach\<close> is not among the properties of any Option, reading it gives
  \<open>undefined\<close>, and calling that is a TypeError.
\<close>

theorem forEach_is_no_property:
  "''forEach'' \<notin> set (ownKeys (Option v))
   \<and> getProp (Option v) ''forEach'' = VUndefined
   \<and> call (getProp (Option v) ''forEach'') s = (Inl TypeError, s)"
  by (simp add: Option_def someProtoKeys_def)

section \<open>orElse and flatMap\<close>

text \<open>
  C8. \<open>Some(x).orElse(alt)\<close> returns that \<open>Some\<close> and leaves the state as it was,
  whatever \<open>alt\<close> is: \<open>alt\<close> is not invoked, even one that would throw or count its
  calls. \<open>None.orElse(alt)\<close> is one invocation of \<open>alt\<close>: its result, its effect, and
  a counter in \<open>alt\<close> goes up by one.
\<close>

theorem orElse_lazy:
  "orElse (VSome x) alt s = (Inr (VSome x), s)
   \<and> orElse VNone alt s = alt s
   \<and> andThen (orElse (VSome (VNum 5)) (throwing msg) s) call = (Inr (VNum 5), s)
   \<and> orElse (VSome y) (counting r) n = (Inr (VSome y), n)
   \<and> orElse VNone (counting r) n = (Inr r, Suc n)"
  by (simp add: andThen_def counting_def)

text \<open>
  C9. For functions \<open>f\<close> and \<open>g\<close> that return well-formed Options,
  \<open>Some(x).flatMap(f).flatMap(g)\<close> and \<open>Some(x).flatMap(v => f(v).flatMap(g))\<close> have
  the same result and the same effect.
\<close>

theorem flatMap_assoc:
  assumes "returnsOptions f" and "returnsOptions g"
  shows "andThen (flatMap (VSome x) f s) (\<lambda>opt. flatMap opt g)
       = flatMap (VSome x) (\<lambda>v s'. andThen (f v s') (\<lambda>opt. flatMap opt g)) s"
  by simp

theorem flatMap_assoc_witness:
  "returnsOptions (toOption :: unit callback)
   \<and> returnsOptions (constFn (VSome (VNum 44)) :: unit callback)
   \<and> andThen (flatMap (VSome (VNum 33)) toOption ())
         (\<lambda>opt. flatMap opt (constFn (VSome (VNum 44))))
       = flatMap (VSome (VNum 33))
           (\<lambda>v s'. andThen (toOption v s') (\<lambda>opt. flatMap opt (constFn (VSome (VNum 44))))) ()
   \<and> andThen (flatMap (VSome (VNum 33)) toOption ())
         (\<lambda>opt. flatMap opt (constFn (VSome (VNum 44))))
       = (Inr (VSome (VNum 44)), ())"
proof -
  have f: "returnsOptions (toOption :: unit callback)"
    by (auto simp: returnsOptions_def toOption_def Option_def)
  have g: "returnsOptions (constFn (VSome (VNum 44)) :: unit callback)"
    by (auto simp: returnsOptions_def constFn_def)
  from flatMap_assoc [OF f g, of "VNum 33" "()"] f g show ?thesis
    by (simp add: toOption_def Option_def andThen_def constFn_def)
qed

end
